theory Spec2Isabelle
  imports Main "HOL-Library.Word"
begin

section \<open>JavaScript values\<close>

text \<open>
  A JavaScript string is a sequence of UTF-16 code units; \<open>.length\<close> counts code units
  and a regular expression without the \<open>u\<close> flag tests code units one by one.
\<close>

type_synonym jschar = "16 word"
type_synonym jsstring = "jschar list"

text \<open>The code unit sequence of an ASCII literal of the source.\<close>

definition js :: "string \<Rightarrow> jsstring" where
  "js s = map (\<lambda>c. of_nat (of_char c)) s"

text \<open>
  A decoded JSON document, as \<open>response.json()\<close> returns it. No function of the
  client inspects a number, so its value is kept as an integer.
\<close>

datatype json =
    JNull
  | JBool bool
  | JNum int
  | JStr jsstring
  | JArr "json list"
  | JObj "(jsstring \<times> json) list"

datatype jstype = TBoolean | TNumber | TString | TObject

text \<open>\<open>typeof\<close> on a decoded JSON value: \<open>null\<close>, arrays and objects are all "object".\<close>

fun typeof :: "json \<Rightarrow> jstype" where
  "typeof JNull = TObject"
| "typeof (JBool b) = TBoolean"
| "typeof (JNum n) = TNumber"
| "typeof (JStr s) = TString"
| "typeof (JArr xs) = TObject"
| "typeof (JObj kvs) = TObject"

fun isArray :: "json \<Rightarrow> bool" where
  "isArray (JArr xs) = True"
| "isArray v = False"

section \<open>Errors of the Oferta API client (src/lib/api/ofertas.ts)\<close>

text \<open>
  The \<open>Error\<close> objects the client builds, one constructor per message template (the
  Spanish messages are quoted here without their accents):
  \<^item> \<open>RequestFailed status errorText\<close> is \<open>new Error(`Error ${response.status}: ${errorText}`)\<close>;
  \<^item> \<open>NotObject\<close> is \<open>new Error("La respuesta del servidor no es un objeto valido")\<close>;
  \<^item> \<open>NotArray\<close> is \<open>new Error("La respuesta del servidor no es un array valido")\<close>;
  \<^item> \<open>Desconocido what\<close> is \<open>new Error("Error desconocido al ...")\<close>, \<open>what\<close> being the
    rest of the message;
  \<^item> \<open>Runtime msg\<close> is an \<open>Error\<close> instance raised by the platform (the \<open>TypeError\<close> of a
    failed \<open>fetch\<close>, the \<open>SyntaxError\<close> of \<open>response.json()\<close>, the \<open>RangeError\<close> of
    \<open>toISOString\<close> on an invalid date).
\<close>

datatype exn =
    RequestFailed nat jsstring
  | NotObject
  | NotArray
  | Desconocido jsstring
  | Runtime jsstring

text \<open>What a \<open>catch (error)\<close> clause can receive: an \<open>Error\<close> instance or any other value.\<close>

datatype thrown = ErrorInstance exn | OtherValue

text \<open>
  Every function of the client ends with
  \<open>catch (error) { throw error instanceof Error ? error : new Error("Error desconocido ...") }\<close>.
\<close>

fun rethrow :: "jsstring \<Rightarrow> thrown \<Rightarrow> exn" where
  "rethrow what (ErrorInstance e) = e"
| "rethrow what OtherValue = Desconocido what"

section \<open>Requests and responses\<close>

record jsfile =
  file_name :: jsstring
  file_size :: nat
  file_type :: jsstring

text \<open>
  The object literal \<open>ofertaData\<close> of \<open>createOferta\<close> and \<open>updateOferta\<close>, which
  \<open>JSON.stringify\<close> encodes into the \<open>oferta\<close> part. \<open>None\<close> in \<open>o_id\<close> and
  \<open>o_habilitado\<close> is a key that the literal does not have (\<open>createOferta\<close>); \<open>None\<close> in
  the three nullable fields is JSON \<open>null\<close>. \<open>o_usuario\<close> and \<open>o_categoria\<close> are the
  \<open>{ id: ... }\<close> references.
\<close>

record ofertaData =
  o_id :: "jsstring option"
  o_titulo :: jsstring
  o_descripcion :: jsstring
  o_usuario :: jsstring
  o_empresaConsultora :: jsstring
  o_fechaPublicacion :: jsstring
  o_fechaCierre :: "jsstring option"
  o_formaPostulacion :: jsstring
  o_emailContacto :: "jsstring option"
  o_linkPostulacion :: "jsstring option"
  o_categoria :: jsstring
  o_habilitado :: "bool option"

text \<open>The entries of a \<open>FormData\<close>, in the order of the \<open>append\<close> calls.\<close>

datatype part = JsonPart ofertaData | FilePart jsfile | StringPart jsstring

datatype http_method = GET | POST | PUT | DELETE

record request =
  url :: jsstring
  http_method :: http_method
  headers :: "(string \<times> jsstring) list"
  body :: "(string \<times> part) list"

text \<open>
  A \<open>Response\<close>: its status, and what \<open>await response.text()\<close> and
  \<open>await response.json()\<close> give (either can throw). \<open>response.ok\<close> is defined by the
  Fetch standard as a status in the range 200 to 299.
\<close>

record response =
  status :: nat
  text_of :: "thrown + jsstring"
  json_of :: "thrown + json"

definition ok :: "response \<Rightarrow> bool" where
  "ok r = (200 \<le> status r \<and> status r \<le> 299)"

text \<open>
  What the module reads from its surroundings: the environment variable
  \<open>NEXT_PUBLIC_API_URL\<close> (possibly unset), the clock behind \<open>new Date()\<close> (milliseconds
  since the epoch), the time value of \<open>new Date(s)\<close> for a string \<open>s\<close> (\<open>None\<close> is
  \<open>NaN\<close>, an invalid date), \<open>Date.prototype.toISOString\<close> on a valid time value, the
  two string formats that the validation library tests (its e-mail pattern, and \<open>new URL(s)\<close>
  not throwing), and \<open>fetch\<close>, which either throws or resolves to a response.
\<close>

record env =
  apiUrl :: "jsstring option"
  now :: int
  dateParse :: "jsstring \<Rightarrow> int option"
  toISOString :: "int \<Rightarrow> jsstring"
  isEmail :: "jsstring \<Rightarrow> bool"
  isUrl :: "jsstring \<Rightarrow> bool"
  fetch :: "request \<Rightarrow> thrown + response"

text \<open>\<open>${apiUrl}\<close> in a template literal: an unset variable prints as \<open>undefined\<close>.\<close>

definition apiUrlText :: "env \<Rightarrow> jsstring" where
  "apiUrlText e = (case apiUrl e of None \<Rightarrow> js ''undefined'' | Some u \<Rightarrow> u)"

definition bearer :: "jsstring \<Rightarrow> jsstring" where
  "bearer token = js ''Bearer '' @ token"

section \<open>Reading postings\<close>

text \<open>
  The part of \<open>fetchOfertaById\<close> and \<open>fetchOfertaBySlug\<close> after \<open>await fetch(...)\<close>: the two
  functions have the same body up to the URL and the text of the unknown-error message.
\<close>

definition objectResponse :: "jsstring \<Rightarrow> thrown + response \<Rightarrow> exn + json" where
  "objectResponse what fetched =
     (case fetched of
        Inl t \<Rightarrow> Inl (rethrow what t)
      | Inr response \<Rightarrow>
          if \<not> ok response then
            (case text_of response of
               Inl t \<Rightarrow> Inl (rethrow what t)
             | Inr errorText \<Rightarrow> Inl (RequestFailed (status response) errorText))
          else
            (case json_of response of
               Inl t \<Rightarrow> Inl (rethrow what t)
             | Inr data \<Rightarrow>
                 if typeof data \<noteq> TObject \<or> data = JNull then Inl NotObject
                 else Inr data))"

definition ofertaByIdRequest :: "env \<Rightarrow> jsstring \<Rightarrow> request" where
  "ofertaByIdRequest e ident =
     \<lparr>url = apiUrlText e @ js ''/api/ofertas/'' @ ident,
      http_method = GET,
      headers = [(''Content-Type'', js ''application/json'')],
      body = []\<rparr>"

definition fetchOfertaById :: "env \<Rightarrow> jsstring \<Rightarrow> exn + json" where
  "fetchOfertaById e ident =
     objectResponse (js ''obtener oferta con ID '' @ ident) (fetch e (ofertaByIdRequest e ident))"

definition ofertaBySlugRequest :: "env \<Rightarrow> jsstring \<Rightarrow> request" where
  "ofertaBySlugRequest e slug =
     \<lparr>url = apiUrlText e @ js ''/api/ofertas/detalles/'' @ slug,
      http_method = GET,
      headers = [(''Content-Type'', js ''application/json'')],
      body = []\<rparr>"

definition fetchOfertaBySlug :: "env \<Rightarrow> jsstring \<Rightarrow> exn + json" where
  "fetchOfertaBySlug e slug =
     objectResponse (js ''obtener oferta con slug '' @ slug) (fetch e (ofertaBySlugRequest e slug))"

definition ofertasRequest :: "env \<Rightarrow> request" where
  "ofertasRequest e =
     \<lparr>url = apiUrlText e @ js ''/api/ofertas'',
      http_method = GET,
      headers = [(''Content-Type'', js ''application/json'')],
      body = []\<rparr>"

text \<open>\<open>fetchOfertas\<close> returns the decoded value itself (\<open>return data as Oferta[]\<close>).\<close>

definition fetchOfertas :: "env \<Rightarrow> exn + json" where
  "fetchOfertas e =
     (let what = js ''obtener ofertas'' in
      case fetch e (ofertasRequest e) of
        Inl t \<Rightarrow> Inl (rethrow what t)
      | Inr response \<Rightarrow>
          if \<not> ok response then
            (case text_of response of
               Inl t \<Rightarrow> Inl (rethrow what t)
             | Inr errorText \<Rightarrow> Inl (RequestFailed (status response) errorText))
          else
            (case json_of response of
               Inl t \<Rightarrow> Inl (rethrow what t)
             | Inr data \<Rightarrow>
                 if \<not> isArray data then Inl NotArray
                 else Inr data))"

section \<open>Deleting a posting\<close>

definition deleteRequest :: "env \<Rightarrow> jsstring \<Rightarrow> jsstring \<Rightarrow> request" where
  "deleteRequest e ident token =
     \<lparr>url = apiUrlText e @ js ''/api/ofertas/'' @ ident,
      http_method = DELETE,
      headers = [(''Content-Type'', js ''application/json''),
                 (''Authorization'', bearer token)],
      body = []\<rparr>"

definition deleteOferta :: "env \<Rightarrow> jsstring \<Rightarrow> jsstring \<Rightarrow> exn + unit" where
  "deleteOferta e ident token =
     (let what = js ''eliminar oferta con ID '' @ ident in
      case fetch e (deleteRequest e ident token) of
        Inl t \<Rightarrow> Inl (rethrow what t)
      | Inr response \<Rightarrow>
          if \<not> ok response then
            if status response = 404 then Inr ()
            else
              (case text_of response of
                 Inl t \<Rightarrow> Inl (rethrow what t)
               | Inr errorText \<Rightarrow> Inl (RequestFailed (status response) errorText))
          else Inr ())"

section \<open>Creating and updating a posting\<close>

text \<open>
  The \<open>data\<close> argument of \<open>createOferta\<close>. \<open>None\<close> is \<open>null\<close> (for the logo: \<open>null\<close>
  or \<open>undefined\<close>, which \<open>if (data.logo)\<close> does not tell apart).
\<close>

record createData =
  c_titulo :: jsstring
  c_descripcion :: jsstring
  c_usuarioId :: jsstring
  c_empresaConsultora :: jsstring
  c_fechaCierre :: "jsstring option"
  c_formaPostulacion :: jsstring
  c_emailContacto :: "jsstring option"
  c_linkPostulacion :: "jsstring option"
  c_categoriaId :: jsstring
  c_logo :: "jsfile option"

text \<open>
  The \<open>data\<close> argument of \<open>updateOferta\<close>. \<open>u_fechaCierre\<close> is \<open>Date | null\<close>: \<open>None\<close> is
  \<open>null\<close>, \<open>Some None\<close> a \<open>Date\<close> whose time value is \<open>NaN\<close>, \<open>Some (Some t)\<close> a valid
  date.
\<close>

record updateData =
  u_id :: jsstring
  u_titulo :: jsstring
  u_descripcion :: jsstring
  u_usuarioId :: jsstring
  u_empresaConsultora :: jsstring
  u_fechaCierre :: "int option option"
  u_formaPostulacion :: jsstring
  u_emailContacto :: "jsstring option"
  u_linkPostulacion :: "jsstring option"
  u_categoriaId :: jsstring
  u_logo :: "jsfile option"
  u_logoUrl :: "jsstring option"
  u_habilitado :: bool

text \<open>The object literal \<open>ofertaData\<close> of \<open>createOferta\<close> (lines 207 to 218).\<close>

definition createOfertaData :: "env \<Rightarrow> createData \<Rightarrow> ofertaData" where
  "createOfertaData e d =
     \<lparr>o_id = None,
      o_titulo = c_titulo d,
      o_descripcion = c_descripcion d,
      o_usuario = c_usuarioId d,
      o_empresaConsultora = c_empresaConsultora d,
      o_fechaPublicacion = toISOString e (now e),
      o_fechaCierre = c_fechaCierre d,
      o_formaPostulacion = c_formaPostulacion d,
      o_emailContacto = (if c_formaPostulacion d = js ''MAIL'' then c_emailContacto d else None),
      o_linkPostulacion = (if c_formaPostulacion d = js ''LINK'' then c_linkPostulacion d else None),
      o_categoria = c_categoriaId d,
      o_habilitado = None\<rparr>"

definition createRequest :: "env \<Rightarrow> createData \<Rightarrow> jsstring \<Rightarrow> request" where
  "createRequest e d token =
     \<lparr>url = apiUrlText e @ js ''/api/ofertas'',
      http_method = POST,
      headers = [(''Authorization'', bearer token)],
      body = [(''oferta'', JsonPart (createOfertaData e d))] @
             (case c_logo d of Some f \<Rightarrow> [(''logo'', FilePart f)] | None \<Rightarrow> [])\<rparr>"

text \<open>The part of \<open>createOferta\<close> and \<open>updateOferta\<close> after \<open>await fetch(...)\<close>.\<close>

definition writeResponse :: "jsstring \<Rightarrow> thrown + response \<Rightarrow> exn + json" where
  "writeResponse what fetched =
     (case fetched of
        Inl t \<Rightarrow> Inl (rethrow what t)
      | Inr response \<Rightarrow>
          if \<not> ok response then
            (case text_of response of
               Inl t \<Rightarrow> Inl (rethrow what t)
             | Inr errorText \<Rightarrow> Inl (RequestFailed (status response) errorText))
          else
            (case json_of response of
               Inl t \<Rightarrow> Inl (rethrow what t)
             | Inr dataResponse \<Rightarrow> Inr dataResponse))"

definition createOferta :: "env \<Rightarrow> createData \<Rightarrow> jsstring \<Rightarrow> exn + json" where
  "createOferta e d token =
     writeResponse (js ''crear oferta'') (fetch e (createRequest e d token))"

text \<open>
  The object literal \<open>ofertaData\<close> of \<open>updateOferta\<close> (lines 142 to 155).
  \<open>data.fechaCierre ? new Date(data.fechaCierre).toISOString() : null\<close>: a \<open>Date\<close> object is
  always truthy, and \<open>toISOString\<close> throws a \<open>RangeError\<close> on an invalid date, inside the
  \<open>try\<close> block and before any request is made.
\<close>

definition updateOfertaData :: "env \<Rightarrow> updateData \<Rightarrow> exn + ofertaData" where
  "updateOfertaData e d =
     (case (case u_fechaCierre d of
              None \<Rightarrow> Inr None
            | Some None \<Rightarrow> Inl (Runtime (js ''Invalid time value''))
            | Some (Some t) \<Rightarrow> Inr (Some (toISOString e t))) of
        Inl err \<Rightarrow> Inl err
      | Inr fechaCierre \<Rightarrow> Inr
          \<lparr>o_id = Some (u_id d),
           o_titulo = u_titulo d,
           o_descripcion = u_descripcion d,
           o_usuario = u_usuarioId d,
           o_empresaConsultora = u_empresaConsultora d,
           o_fechaPublicacion = toISOString e (now e),
           o_fechaCierre = fechaCierre,
           o_formaPostulacion = u_formaPostulacion d,
           o_emailContacto = (if u_formaPostulacion d = js ''MAIL'' then u_emailContacto d else None),
           o_linkPostulacion = (if u_formaPostulacion d = js ''LINK'' then u_linkPostulacion d else None),
           o_categoria = u_categoriaId d,
           o_habilitado = Some (u_habilitado d)\<rparr>)"

definition updateRequest :: "env \<Rightarrow> updateData \<Rightarrow> jsstring \<Rightarrow> exn + request" where
  "updateRequest e d token =
     (case updateOfertaData e d of
        Inl err \<Rightarrow> Inl err
      | Inr ofertaData \<Rightarrow> Inr
          \<lparr>url = apiUrlText e @ js ''/api/ofertas/'' @ u_id d,
           http_method = PUT,
           headers = [(''Authorization'', bearer token)],
           body = [(''oferta'', JsonPart ofertaData)] @
                  (case u_logo d of Some f \<Rightarrow> [(''logo'', FilePart f)] | None \<Rightarrow> []) @
                  [(''logoUrl'', StringPart (case u_logoUrl d of None \<Rightarrow> js ''null'' | Some u \<Rightarrow> u))]\<rparr>)"

definition updateOferta :: "env \<Rightarrow> updateData \<Rightarrow> jsstring \<Rightarrow> exn + json" where
  "updateOferta e d token =
     (case updateRequest e d token of
        Inl err \<Rightarrow> Inl err
      | Inr req \<Rightarrow> writeResponse (js ''actualizar oferta con ID '' @ u_id d) (fetch e req))"

text \<open>The \<open>oferta\<close> part of a request body: the payload the backend receives.\<close>

definition ofertaPart :: "request \<Rightarrow> ofertaData option" where
  "ofertaPart req =
     (case map_of (body req) ''oferta'' of
        Some (JsonPart p) \<Rightarrow> Some p
      | _ \<Rightarrow> None)"

section \<open>The form schema (src/app/nuevo-aviso/page.tsx and the edit page)\<close>

text \<open>
  The two pages declare the same \<open>formSchema\<close> up to the message of the title's
  character rule and the character class of the company name. The schema is written
  with the zod library, whose rules are embedded as zod 3 evaluates them:
  \<^item> the checks of a string schema run in the order written, \<open>trim\<close> replacing the value
    for everything after it, and a failed check adds an issue without stopping the rest;
  \<^item> a \<open>refine\<close> runs on the value its inner schema produced unless that schema aborted,
    which only a value of the wrong type causes; the typed form state excludes it;
  \<^item> \<open>optional().nullable()\<close> lets \<open>undefined\<close> and \<open>null\<close> through without running the
    inner schema;
  \<^item> an issue carries the path of its field; validation passes when there is no issue.
\<close>

datatype page = NuevoAviso | EditarAviso

datatype 'a optional = Undefined | Null | Val 'a

datatype forma = MAIL | LINK

text \<open>The form state, which is also the type of the parsed output (\<open>z.infer\<close>).\<close>

record formData =
  titulo :: jsstring
  descripcion :: jsstring
  empresaConsultora :: jsstring
  categoria :: jsstring
  formaPostulacion :: forma
  emailContacto :: "jsstring optional"
  linkPostulacion :: "jsstring optional"
  fechaCierre :: "jsstring optional"
  logo :: "jsfile option"

text \<open>
  The messages of the schema, in the order of the source (quoted without accents):
  \<^item> \<open>TituloObligatorio\<close>: "El titulo es obligatorio";
  \<^item> \<open>TituloMax\<close>: "El titulo no puede superar los 150 caracteres";
  \<^item> \<open>TituloSoloEspacios\<close>: "El titulo no puede ser solo espacios";
  \<^item> \<open>TituloCaracteresBarra\<close>: "El titulo no puede contener caracteres especiales raros
    (excepto /)" (create page), \<open>TituloCaracteres\<close>: the same without the parenthesis (edit
    page);
  \<^item> \<open>DescripcionObligatoria\<close>, \<open>DescripcionMax\<close> (5000), \<open>DescripcionSoloEspacios\<close>;
  \<^item> \<open>EmpresaObligatoria\<close>, \<open>EmpresaMax\<close> (150), \<open>EmpresaSoloEspacios\<close>,
    \<open>EmpresaCaracteres\<close>;
  \<^item> \<open>CategoriaObligatoria\<close>: "Debes seleccionar una categoria";
  \<^item> \<open>EmailInvalido\<close>: "Debes ingresar un email valido";
  \<^item> \<open>UrlInvalida\<close>: "Debes ingresar una URL valida (ej: https://example.com)";
  \<^item> \<open>LinkSoloEspacios\<close>: "El link no puede ser solo espacios";
  \<^item> \<open>LogoMax\<close>: "El archivo no puede superar los 5MB";
  \<^item> \<open>LogoTipo\<close>: "Solo se permiten imagenes en formato PNG, JPEG o JPG";
  \<^item> \<open>EmailRequerido\<close>: "Debes ingresar un email valido para postulacion por email";
  \<^item> \<open>LinkRequerido\<close>: "Debes ingresar una URL valida para postulacion por enlace";
  \<^item> \<open>FechaCierreAnterior\<close>: "La fecha de cierre no puede ser anterior a hoy".
\<close>

datatype message =
    TituloObligatorio | TituloMax | TituloSoloEspacios | TituloCaracteresBarra | TituloCaracteres
  | DescripcionObligatoria | DescripcionMax | DescripcionSoloEspacios
  | EmpresaObligatoria | EmpresaMax | EmpresaSoloEspacios | EmpresaCaracteres
  | CategoriaObligatoria
  | EmailInvalido
  | UrlInvalida | LinkSoloEspacios
  | LogoMax | LogoTipo
  | EmailRequerido | LinkRequerido | FechaCierreAnterior

type_synonym issue = "string \<times> message"

text \<open>A check or refinement: no issue when the condition holds, its message otherwise.\<close>

definition check :: "bool \<Rightarrow> message \<Rightarrow> message list" where
  "check holds msg = (if holds then [] else [msg])"

definition at :: "string \<Rightarrow> message list \<Rightarrow> issue list" where
  "at path msgs = map (Pair path) msgs"

subsection \<open>Strings\<close>

text \<open>
  The code units that \<open>String.prototype.trim\<close> strips and that \<open>\s\<close> matches: ECMAScript's
  WhiteSpace and LineTerminator (tab, LF, VT, FF, CR, space, no-break space, U+1680,
  U+2000 to U+200A, U+2028, U+2029, U+202F, U+205F, U+3000 and U+FEFF).
\<close>

definition isSpace :: "jschar \<Rightarrow> bool" where
  "isSpace c =
     (c \<in> set [0x09, 0x0A, 0x0B, 0x0C, 0x0D, 0x20, 0xA0, 0x1680, 0x2028, 0x2029, 0x202F, 0x205F,
                0x3000, 0xFEFF]
      \<or> (0x2000 \<le> c \<and> c \<le> 0x200A))"

definition trim :: "jsstring \<Rightarrow> jsstring" where
  "trim s = rev (dropWhile isSpace (rev (dropWhile isSpace s)))"

text \<open>\<open>/[^...]/.test(val)\<close>: some code unit of \<open>val\<close> is outside the class.\<close>

definition testOutside :: "(jschar \<Rightarrow> bool) \<Rightarrow> jsstring \<Rightarrow> bool" where
  "testOutside cls val = list_ex (\<lambda>c. \<not> cls c) val"

text \<open>\<open>a-zA-Z0-9\<close>, and the accented vowels written in all three classes.\<close>

definition alnum :: "jschar \<Rightarrow> bool" where
  "alnum c = ((0x61 \<le> c \<and> c \<le> 0x7A) \<or> (0x41 \<le> c \<and> c \<le> 0x5A) \<or> (0x30 \<le> c \<and> c \<le> 0x39))"

definition vocalAcentuada :: "jschar \<Rightarrow> bool" where
  "vocalAcentuada c = (c \<in> set [0xE1, 0xE9, 0xED, 0xF3, 0xFA, 0xC1, 0xC9, 0xCD, 0xD3, 0xDA])"

text \<open>The class of the title on both pages: \<open>[a-zA-Z0-9\s...]\<close> with the accented vowels,
  n with tilde in both cases (0xF1, 0xD1), \<open>.\<close> and \<open>/\<close>.\<close>

definition tituloClass :: "jschar \<Rightarrow> bool" where
  "tituloClass c = (alnum c \<or> isSpace c \<or> vocalAcentuada c \<or> c \<in> set [0xF1, 0xD1, 0x2E, 0x2F])"

text \<open>
  The class of the company name. Create page: the accented vowels, \<open>.\<close> and \<open>/\<close>.
  Edit page: the accented vowels, n with tilde in both cases, \<open>.\<close>, \<open>,\<close> and \<open>-\<close>.
\<close>

fun empresaClass :: "page \<Rightarrow> jschar \<Rightarrow> bool" where
  "empresaClass NuevoAviso c = (alnum c \<or> isSpace c \<or> vocalAcentuada c \<or> c \<in> set [0x2E, 0x2F])"
| "empresaClass EditarAviso c =
     (alnum c \<or> isSpace c \<or> vocalAcentuada c \<or> c \<in> set [0xF1, 0xD1, 0x2E, 0x2C, 0x2D])"

subsection \<open>Field rules\<close>

definition tituloSchema :: "page \<Rightarrow> jsstring \<Rightarrow> message list \<times> jsstring" where
  "tituloSchema pg input =
     (let val = trim input in
      (check (1 \<le> length input) TituloObligatorio @
       check (length input \<le> 150) TituloMax @
       check (length val > 0 \<and> length (trim val) > 0) TituloSoloEspacios @
       check (\<not> testOutside tituloClass val)
         (case pg of NuevoAviso \<Rightarrow> TituloCaracteresBarra | EditarAviso \<Rightarrow> TituloCaracteres),
       val))"

definition descripcionSchema :: "jsstring \<Rightarrow> message list \<times> jsstring" where
  "descripcionSchema input =
     (let val = trim input in
      (check (1 \<le> length input) DescripcionObligatoria @
       check (length input \<le> 5000) DescripcionMax @
       check (length val > 0 \<and> length (trim val) > 0) DescripcionSoloEspacios,
       val))"

definition empresaConsultoraSchema :: "page \<Rightarrow> jsstring \<Rightarrow> message list \<times> jsstring" where
  "empresaConsultoraSchema pg input =
     (let val = trim input in
      (check (1 \<le> length input) EmpresaObligatoria @
       check (length input \<le> 150) EmpresaMax @
       check (length val > 0 \<and> length (trim val) > 0) EmpresaSoloEspacios @
       check (\<not> testOutside (empresaClass pg) val) EmpresaCaracteres,
       val))"

definition categoriaSchema :: "jsstring \<Rightarrow> message list \<times> jsstring" where
  "categoriaSchema input = (check (1 \<le> length input) CategoriaObligatoria, input)"

definition emailContactoSchema :: "env \<Rightarrow> jsstring optional \<Rightarrow> message list \<times> jsstring optional" where
  "emailContactoSchema e input =
     (case input of
        Val s \<Rightarrow> (check (isEmail e s) EmailInvalido, Val s)
      | Undefined \<Rightarrow> ([], Undefined)
      | Null \<Rightarrow> ([], Null))"

definition linkPostulacionSchema :: "env \<Rightarrow> jsstring optional \<Rightarrow> message list \<times> jsstring optional" where
  "linkPostulacionSchema e input =
     (case input of
        Val s \<Rightarrow>
          (let val = trim s in
           (check (isUrl e s) UrlInvalida @
            check (val = [] \<or> (length val > 0 \<and> length (trim val) > 0)) LinkSoloEspacios,
            Val val))
      | Undefined \<Rightarrow> ([], Undefined)
      | Null \<Rightarrow> ([], Null))"

text \<open>\<open>!file || file.size <= 5 * 1024 * 1024\<close>, then \<open>!file || [...].includes(file.type)\<close>.\<close>

definition logoSchema :: "jsfile option \<Rightarrow> message list \<times> jsfile option" where
  "logoSchema input =
     (check (case input of None \<Rightarrow> True | Some f \<Rightarrow> file_size f \<le> 5 * 1024 * 1024) LogoMax @
      check (case input of
               None \<Rightarrow> True
             | Some f \<Rightarrow> file_type f \<in> set [js ''image/png'', js ''image/jpeg'', js ''image/jpg''])
        LogoTipo,
      input)"

text \<open>
  The \<open>z.object\<close>: every field is parsed, the issues are collected in key order.
  \<open>formaPostulacion\<close> (an enum of the two channels) and \<open>fechaCierre\<close> (any string, or
  missing) raise no issue on a typed form state.
\<close>

definition objectSchema :: "page \<Rightarrow> env \<Rightarrow> formData \<Rightarrow> issue list \<times> formData" where
  "objectSchema pg e input =
     (let (i1, v1) = tituloSchema pg (titulo input);
          (i2, v2) = descripcionSchema (descripcion input);
          (i3, v3) = empresaConsultoraSchema pg (empresaConsultora input);
          (i4, v4) = categoriaSchema (categoria input);
          (i6, v6) = emailContactoSchema e (emailContacto input);
          (i7, v7) = linkPostulacionSchema e (linkPostulacion input);
          (i9, v9) = logoSchema (logo input)
      in (at ''titulo'' i1 @ at ''descripcion'' i2 @ at ''empresaConsultora'' i3 @
          at ''categoria'' i4 @ at ''emailContacto'' i6 @ at ''linkPostulacion'' i7 @
          at ''logo'' i9,
          \<lparr>titulo = v1, descripcion = v2, empresaConsultora = v3, categoria = v4,
           formaPostulacion = formaPostulacion input, emailContacto = v6,
           linkPostulacion = v7, fechaCierre = fechaCierre input, logo = v9\<rparr>))"

subsection \<open>Cross-field rules\<close>

text \<open>\<open>!x || x.trim() === ""\<close> on a string that may be \<open>undefined\<close> or \<open>null\<close>.\<close>

definition blank :: "jsstring optional \<Rightarrow> bool" where
  "blank x = (case x of Val s \<Rightarrow> s = [] \<or> trim s = [] | Undefined \<Rightarrow> True | Null \<Rightarrow> True)"

definition emailRefine :: "formData \<Rightarrow> bool" where
  "emailRefine d = (if formaPostulacion d = MAIL \<and> blank (emailContacto d) then False else True)"

definition linkRefine :: "formData \<Rightarrow> bool" where
  "linkRefine d = (if formaPostulacion d = LINK \<and> blank (linkPostulacion d) then False else True)"

text \<open>
  \<open>data.fechaCierre && new Date(data.fechaCierre) < new Date()\<close>: a string is truthy when it
  is not empty, and \<open><\<close> on two dates compares their time values, \<open>NaN\<close> being less than
  nothing.
\<close>

definition fechaCierreRefine :: "env \<Rightarrow> formData \<Rightarrow> bool" where
  "fechaCierreRefine e d =
     (if (case fechaCierre d of
            Val s \<Rightarrow> s \<noteq> [] \<and> (case dateParse e s of None \<Rightarrow> False | Some t \<Rightarrow> t < now e)
          | Undefined \<Rightarrow> False
          | Null \<Rightarrow> False)
      then False else True)"

definition formSchema :: "page \<Rightarrow> env \<Rightarrow> formData \<Rightarrow> issue list \<times> formData" where
  "formSchema pg e input =
     (let (issues, d) = objectSchema pg e input in
      (issues @
       at ''emailContacto'' (check (emailRefine d) EmailRequerido) @
       at ''linkPostulacion'' (check (linkRefine d) LinkRequerido) @
       at ''fechaCierre'' (check (fechaCierreRefine e d) FechaCierreAnterior),
       d))"

text \<open>
  \<open>form.handleSubmit(onSubmit)\<close> with the zod resolver: \<open>onSubmit\<close> receives the parsed
  output when validation found no issue and is not called otherwise.
\<close>

definition handleSubmit :: "page \<Rightarrow> env \<Rightarrow> formData \<Rightarrow> formData option" where
  "handleSubmit pg e input =
     (case formSchema pg e input of
        ([], d) \<Rightarrow> Some d
      | (issue # others, d) \<Rightarrow> None)"

section \<open>Submitting an edit (\<open>EditForm.onSubmit\<close>)\<close>

text \<open>
  Modelled from the spec: the type \<open>Oferta\<close> of \<open>lib/types/iOferta\<close>, which is not among
  the sources. Of the loaded posting the submit handler reads \<open>habilitado\<close> only; the
  record also keeps the publication timestamp (the spec's "publication timestamp
  (server-assigned, ISO-8601)") that the posting was stored with.
\<close>

record oferta =
  of_fechaPublicacion :: jsstring
  of_habilitado :: bool

text \<open>\<open>x || ""\<close> and \<open>x || null\<close> on a string that may be missing.\<close>

definition orEmpty :: "jsstring option \<Rightarrow> jsstring" where
  "orEmpty x = (case x of None \<Rightarrow> [] | Some s \<Rightarrow> s)"

definition orNull :: "jsstring optional \<Rightarrow> jsstring option" where
  "orNull x = (case x of Val s \<Rightarrow> (if s = [] then None else Some s) | Undefined \<Rightarrow> None | Null \<Rightarrow> None)"

fun formaText :: "forma \<Rightarrow> jsstring" where
  "formaText MAIL = js ''MAIL''"
| "formaText LINK = js ''LINK''"

text \<open>
  The literal \<open>updateData\<close> of \<open>onSubmit\<close>: \<open>ident\<close> is the route parameter, \<open>userId\<close> is
  \<open>session?.user.id\<close>, \<open>existingLogoUrl\<close> the component state, \<open>posting\<close> the loaded
  posting and \<open>d\<close> the parsed form.
\<close>

definition editUpdateData ::
  "env \<Rightarrow> jsstring \<Rightarrow> jsstring option \<Rightarrow> jsstring option \<Rightarrow> oferta \<Rightarrow> formData \<Rightarrow> updateData" where
  "editUpdateData e ident userId existingLogoUrl posting d =
     \<lparr>u_id = ident,
      u_titulo = titulo d,
      u_descripcion = descripcion d,
      u_usuarioId = orEmpty userId,
      u_empresaConsultora = empresaConsultora d,
      u_fechaCierre =
        (case fechaCierre d of
           Val s \<Rightarrow> (if s \<noteq> [] then Some (dateParse e s) else None)
         | Undefined \<Rightarrow> None
         | Null \<Rightarrow> None),
      u_formaPostulacion = formaText (formaPostulacion d),
      u_emailContacto = (if formaPostulacion d = MAIL then orNull (emailContacto d) else None),
      u_linkPostulacion = (if formaPostulacion d = LINK then orNull (linkPostulacion d) else None),
      u_categoriaId = categoria d,
      u_logo = logo d,
      u_logoUrl = existingLogoUrl,
      u_habilitado = of_habilitado posting\<rparr>"

text \<open>
  The call of \<open>onSubmit\<close>:
  \<open>await updateOfertaMutation.mutateAsync({ data: updateData, token: session?.backendToken || "" })\<close>,
  the mutation function being \<open>updateOferta\<close>.
\<close>

definition editSubmit ::
  "env \<Rightarrow> jsstring \<Rightarrow> jsstring option \<Rightarrow> jsstring option \<Rightarrow> jsstring option \<Rightarrow> oferta \<Rightarrow> formData
     \<Rightarrow> exn + json" where
  "editSubmit e ident userId backendToken existingLogoUrl posting d =
     updateOferta e (editUpdateData e ident userId existingLogoUrl posting d) (orEmpty backendToken)"

section \<open>An environment to run the model in\<close>

text \<open>
  The date-only form \<open>YYYY-MM-DD\<close> of ECMAScript's date-time string format, which an
  \<open>input type="date"\<close> delivers: \<open>new Date\<close> reads it as midnight UTC of that day, and a day
  number up to 31 that is past the end of the month runs over into the next month. Any
  other string is an invalid date here.
\<close>

definition isDigit :: "jschar \<Rightarrow> bool" where
  "isDigit c = (0x30 \<le> c \<and> c \<le> 0x39)"

definition decimal :: "jsstring \<Rightarrow> int" where
  "decimal s = foldl (\<lambda>a c. 10 * a + (uint c - 48)) 0 s"

text \<open>
  Days from 1970-01-01 to a date of the proleptic Gregorian calendar; the count is linear
  in the day number, so day 30 of February is the 29th day after 1 February.
\<close>

definition daysFromCivil :: "int \<Rightarrow> int \<Rightarrow> int \<Rightarrow> int" where
  "daysFromCivil y m d =
     (let y' = (if m \<le> 2 then y - 1 else y);
          era = y' div 400;
          yoe = y' - era * 400;
          doy = (153 * (if m > 2 then m - 3 else m + 9) + 2) div 5 + d - 1;
          doe = yoe * 365 + yoe div 4 - yoe div 100 + doy
      in era * 146097 + doe - 719468)"

definition msPerDay :: int where
  "msPerDay = 86400000"

definition parseDateOnly :: "jsstring \<Rightarrow> int option" where
  "parseDateOnly s =
     (if length s = 10 \<and> list_all isDigit (take 4 s) \<and> s ! 4 = 0x2D
         \<and> list_all isDigit (take 2 (drop 5 s)) \<and> s ! 7 = 0x2D
         \<and> list_all isDigit (drop 8 s)
      then
        (let y = decimal (take 4 s); m = decimal (take 2 (drop 5 s)); d = decimal (drop 8 s) in
         if 1 \<le> m \<and> m \<le> 12 \<and> 1 \<le> d \<and> d \<le> 31
         then Some (daysFromCivil y m d * msPerDay) else None)
      else None)"

text \<open>The inverse direction, and \<open>toISOString\<close> for the years 0000 to 9999.\<close>

definition civilFromDays :: "int \<Rightarrow> int \<times> int \<times> int" where
  "civilFromDays z0 =
     (let z = z0 + 719468;
          era = z div 146097;
          doe = z - era * 146097;
          yoe = (doe - doe div 1460 + doe div 36524 - doe div 146096) div 365;
          doy = doe - (365 * yoe + yoe div 4 - yoe div 100);
          mp = (5 * doy + 2) div 153;
          d = doy - (153 * mp + 2) div 5 + 1;
          m = (if mp < 10 then mp + 3 else mp - 9);
          y = yoe + era * 400 + (if m \<le> 2 then 1 else 0)
      in (y, m, d))"

definition digits :: "nat \<Rightarrow> int \<Rightarrow> jsstring" where
  "digits w n = map (\<lambda>i. of_int (48 + (n div 10 ^ (w - 1 - i)) mod 10)) [0..<w]"

definition isoString :: "int \<Rightarrow> jsstring" where
  "isoString t =
     (let (y, m, d) = civilFromDays (t div msPerDay);
          ms = t mod msPerDay
      in digits 4 y @ js ''-'' @ digits 2 m @ js ''-'' @ digits 2 d @ js ''T'' @
         digits 2 (ms div 3600000) @ js '':'' @ digits 2 (ms div 60000 mod 60) @ js '':'' @
         digits 2 (ms div 1000 mod 60) @ js ''.'' @ digits 3 (ms mod 1000) @ js ''Z'')"

text \<open>
  An environment with the clock at \<open>t\<close> and a backend that answers every request with
  \<open>fetched\<close>. The two format tests are stand-ins: an e-mail address contains \<open>@\<close>, a URL
  starts with \<open>http\<close>.
\<close>

definition exampleEnv :: "int \<Rightarrow> (thrown + response) \<Rightarrow> env" where
  "exampleEnv t fetched =
     \<lparr>apiUrl = Some (js ''http://localhost:8080''),
      now = t,
      dateParse = parseDateOnly,
      toISOString = isoString,
      isEmail = (\<lambda>s. 0x40 \<in> set s),
      isUrl = (\<lambda>s. take 4 s = js ''http''),
      fetch = (\<lambda>req. fetched)\<rparr>"

definition jsonResponse :: "nat \<Rightarrow> json \<Rightarrow> response" where
  "jsonResponse code data = \<lparr>status = code, text_of = Inr [], json_of = Inr data\<rparr>"

definition textResponse :: "nat \<Rightarrow> jsstring \<Rightarrow> response" where
  "textResponse code txt =
     \<lparr>status = code, text_of = Inr txt, json_of = Inl (ErrorInstance (Runtime (js ''Unexpected token'')))\<rparr>"

text \<open>15:00 UTC on 3 November 2026, noon in Puerto Madryn.\<close>

definition noon :: int where
  "noon = 1793718000000"

text \<open>A caller that fills in both contact fields, for either channel.\<close>

definition exampleCreate :: "jsstring \<Rightarrow> createData" where
  "exampleCreate channel =
     \<lparr>c_titulo = js ''Cocinero/a'',
      c_descripcion = js ''Turno noche'',
      c_usuarioId = js ''7'',
      c_empresaConsultora = js ''Acme S.A.'',
      c_fechaCierre = None,
      c_formaPostulacion = channel,
      c_emailContacto = Some (js ''rrhh@acme.com''),
      c_linkPostulacion = Some (js ''https://acme.com/jobs''),
      c_categoriaId = js ''3'',
      c_logo = None\<rparr>"

definition exampleUpdate :: "jsstring \<Rightarrow> updateData" where
  "exampleUpdate channel =
     \<lparr>u_id = js ''42'',
      u_titulo = js ''Cocinero/a'',
      u_descripcion = js ''Turno noche'',
      u_usuarioId = js ''7'',
      u_empresaConsultora = js ''Acme S.A.'',
      u_fechaCierre = None,
      u_formaPostulacion = channel,
      u_emailContacto = Some (js ''rrhh@acme.com''),
      u_linkPostulacion = Some (js ''https://acme.com/jobs''),
      u_categoriaId = js ''3'',
      u_logo = None,
      u_logoUrl = None,
      u_habilitado = True\<rparr>"

text \<open>A form that passes every rule but, possibly, the ones on the closing date.\<close>

definition exampleForm :: "jsstring optional \<Rightarrow> formData" where
  "exampleForm closing =
     \<lparr>titulo = js ''Cocinero/a'',
      descripcion = js ''Turno noche'',
      empresaConsultora = js ''Acme S.A.'',
      categoria = js ''3'',
      formaPostulacion = MAIL,
      emailContacto = Val (js ''rrhh@acme.com''),
      linkPostulacion = Null,
      fechaCierre = closing,
      logo = None\<rparr>"

definition examplePosting :: oferta where
  "examplePosting = \<lparr>of_fechaPublicacion = js ''2025-01-15T12:00:00.000Z'', of_habilitado = True\<rparr>"

section \<open>Properties of the API client\<close>

lemma js_MAIL_LINK: "js ''MAIL'' \<noteq> js ''LINK''"
  by (simp add: js_def)

lemma ofertaPart_createRequest:
  "ofertaPart (createRequest e c token) = Some (createOfertaData e c)"
  by (simp add: ofertaPart_def createRequest_def)

lemma ofertaPart_updateRequest:
  "updateRequest e u token = Inr req \<Longrightarrow> updateOfertaData e u = Inr p \<Longrightarrow> ofertaPart req = Some p"
  by (auto simp: ofertaPart_def updateRequest_def)

text \<open>
  The requests are built before \<open>fetch\<close> is called, so they are the same whatever the
  backend does. \<open>createOferta\<close> hands \<open>createRequest\<close> to \<open>fetch\<close> and handles the answer;
  \<open>updateOferta\<close> does so with \<open>updateRequest\<close>, or throws before calling \<open>fetch\<close> when
  the closing date is an invalid \<open>Date\<close>.
\<close>

lemma apiUrlText_fetch: "apiUrlText (e\<lparr>fetch := f\<rparr>) = apiUrlText e"
  by (simp add: apiUrlText_def)

lemma createRequest_fetch:
  "createRequest (e\<lparr>fetch := f\<rparr>) c token = createRequest e c token"
  by (simp add: createRequest_def createOfertaData_def apiUrlText_fetch)

lemma updateOfertaData_fetch:
  "updateOfertaData (e\<lparr>fetch := f\<rparr>) u = updateOfertaData e u"
  by (simp add: updateOfertaData_def split: option.splits sum.splits)

lemma updateRequest_fetch:
  "updateRequest (e\<lparr>fetch := f\<rparr>) u token = updateRequest e u token"
  by (simp add: updateRequest_def updateOfertaData_fetch apiUrlText_fetch split: sum.splits)

lemma editUpdateData_fetch:
  "editUpdateData (e\<lparr>fetch := f\<rparr>) ident userId existingLogoUrl posting d
     = editUpdateData e ident userId existingLogoUrl posting d"
  by (simp add: editUpdateData_def split: optional.splits)

lemma createOferta_sends:
  "createOferta (e\<lparr>fetch := f\<rparr>) c token
     = writeResponse (js ''crear oferta'') (f (createRequest e c token))"
  by (simp add: createOferta_def createRequest_fetch)

lemma updateOferta_sends:
  "updateRequest e u token = Inr req \<Longrightarrow>
     updateOferta (e\<lparr>fetch := f\<rparr>) u token
       = writeResponse (js ''actualizar oferta con ID '' @ u_id u) (f req)"
  by (simp add: updateOferta_def updateRequest_fetch)

lemma updateOferta_invalid_date:
  "u_fechaCierre u = Some None \<Longrightarrow>
     updateOferta (e\<lparr>fetch := f\<rparr>) u token = Inl (Runtime (js ''Invalid time value''))"
  by (simp add: updateOferta_def updateRequest_def updateOfertaData_def)

lemma updateRequest_exists:
  "u_fechaCierre u \<noteq> Some None \<Longrightarrow> \<exists>req p. updateRequest e u token = Inr req \<and> updateOfertaData e u = Inr p"
  by (auto simp: updateRequest_def updateOfertaData_def split: option.splits)

lemma updateOfertaData_fields:
  assumes "updateOfertaData e u = Inr p"
  shows "o_formaPostulacion p = u_formaPostulacion u"
    and "o_emailContacto p = (if u_formaPostulacion u = js ''MAIL'' then u_emailContacto u else None)"
    and "o_linkPostulacion p = (if u_formaPostulacion u = js ''LINK'' then u_linkPostulacion u else None)"
    and "o_fechaPublicacion p = toISOString e (now e)"
  using assms by (auto simp: updateOfertaData_def split: sum.splits option.splits)

text \<open>
  Claim C1. For every backend \<open>f\<close>, \<open>createOferta\<close> and \<open>updateOferta\<close> hand \<open>fetch\<close> one
  request, whose \<open>oferta\<close> part carries the caller's \<open>formaPostulacion\<close>; when that is
  "MAIL" the part has \<open>linkPostulacion\<close> null (and the caller's \<open>emailContacto\<close>), when it is
  "LINK" it has \<open>emailContacto\<close> null (and the caller's \<open>linkPostulacion\<close>), whatever the
  caller put into the two fields. \<open>updateOferta\<close> throws without a request when its
  closing date is an invalid \<open>Date\<close>.
\<close>

theorem oferta_payload_channel_exclusive:
  "(\<exists>req p. ofertaPart req = Some p
       \<and> (\<forall>f. createOferta (e\<lparr>fetch := f\<rparr>) c token = writeResponse (js ''crear oferta'') (f req))
       \<and> o_formaPostulacion p = c_formaPostulacion c
       \<and> (c_formaPostulacion c = js ''MAIL'' \<longrightarrow>
            o_linkPostulacion p = None \<and> o_emailContacto p = c_emailContacto c)
       \<and> (c_formaPostulacion c = js ''LINK'' \<longrightarrow>
            o_emailContacto p = None \<and> o_linkPostulacion p = c_linkPostulacion c))
   \<and> (u_fechaCierre u \<noteq> Some None \<longrightarrow>
        (\<exists>req p. ofertaPart req = Some p
           \<and> (\<forall>f. updateOferta (e\<lparr>fetch := f\<rparr>) u token
                    = writeResponse (js ''actualizar oferta con ID '' @ u_id u) (f req))
           \<and> o_formaPostulacion p = u_formaPostulacion u
           \<and> (u_formaPostulacion u = js ''MAIL'' \<longrightarrow>
                o_linkPostulacion p = None \<and> o_emailContacto p = u_emailContacto u)
           \<and> (u_formaPostulacion u = js ''LINK'' \<longrightarrow>
                o_emailContacto p = None \<and> o_linkPostulacion p = u_linkPostulacion u)))
   \<and> (u_fechaCierre u = Some None \<longrightarrow>
        (\<forall>f. updateOferta (e\<lparr>fetch := f\<rparr>) u token = Inl (Runtime (js ''Invalid time value''))))"
proof (intro conjI impI)
  let ?p = "createOfertaData e c"
  have "ofertaPart (createRequest e c token) = Some ?p"
    by (rule ofertaPart_createRequest)
  moreover have "\<forall>f. createOferta (e\<lparr>fetch := f\<rparr>) c token
      = writeResponse (js ''crear oferta'') (f (createRequest e c token))"
    by (simp add: createOferta_sends)
  moreover have "o_formaPostulacion ?p = c_formaPostulacion c"
    by (simp add: createOfertaData_def)
  moreover have "c_formaPostulacion c = js ''MAIL'' \<longrightarrow>
      o_linkPostulacion ?p = None \<and> o_emailContacto ?p = c_emailContacto c"
    using js_MAIL_LINK by (simp add: createOfertaData_def)
  moreover have "c_formaPostulacion c = js ''LINK'' \<longrightarrow>
      o_emailContacto ?p = None \<and> o_linkPostulacion ?p = c_linkPostulacion c"
    using js_MAIL_LINK by (simp add: createOfertaData_def)
  ultimately show "\<exists>req p. ofertaPart req = Some p
       \<and> (\<forall>f. createOferta (e\<lparr>fetch := f\<rparr>) c token = writeResponse (js ''crear oferta'') (f req))
       \<and> o_formaPostulacion p = c_formaPostulacion c
       \<and> (c_formaPostulacion c = js ''MAIL'' \<longrightarrow>
            o_linkPostulacion p = None \<and> o_emailContacto p = c_emailContacto c)
       \<and> (c_formaPostulacion c = js ''LINK'' \<longrightarrow>
            o_emailContacto p = None \<and> o_linkPostulacion p = c_linkPostulacion c)"
    by blast
next
  assume "u_fechaCierre u \<noteq> Some None"
  then obtain req p where req: "updateRequest e u token = Inr req" and p: "updateOfertaData e u = Inr p"
    using updateRequest_exists by blast
  have "ofertaPart req = Some p"
    using req p by (rule ofertaPart_updateRequest)
  moreover have "\<forall>f. updateOferta (e\<lparr>fetch := f\<rparr>) u token
      = writeResponse (js ''actualizar oferta con ID '' @ u_id u) (f req)"
    using updateOferta_sends [OF req] by blast
  moreover have "o_formaPostulacion p = u_formaPostulacion u"
    by (rule updateOfertaData_fields(1) [OF p])
  moreover have "u_formaPostulacion u = js ''MAIL'' \<longrightarrow>
      o_linkPostulacion p = None \<and> o_emailContacto p = u_emailContacto u"
    using js_MAIL_LINK by (simp add: updateOfertaData_fields [OF p])
  moreover have "u_formaPostulacion u = js ''LINK'' \<longrightarrow>
      o_emailContacto p = None \<and> o_linkPostulacion p = u_linkPostulacion u"
    using js_MAIL_LINK by (simp add: updateOfertaData_fields [OF p])
  ultimately show "\<exists>req p. ofertaPart req = Some p
           \<and> (\<forall>f. updateOferta (e\<lparr>fetch := f\<rparr>) u token
                    = writeResponse (js ''actualizar oferta con ID '' @ u_id u) (f req))
           \<and> o_formaPostulacion p = u_formaPostulacion u
           \<and> (u_formaPostulacion u = js ''MAIL'' \<longrightarrow>
                o_linkPostulacion p = None \<and> o_emailContacto p = u_emailContacto u)
           \<and> (u_formaPostulacion u = js ''LINK'' \<longrightarrow>
                o_emailContacto p = None \<and> o_linkPostulacion p = u_linkPostulacion u)"
    by blast
next
  assume "u_fechaCierre u = Some None"
  then show "\<forall>f. updateOferta (e\<lparr>fetch := f\<rparr>) u token = Inl (Runtime (js ''Invalid time value''))"
    by (simp add: updateOferta_invalid_date)
qed

theorem oferta_payload_channel_exclusive_witness:
  "(\<exists>req p. ofertaPart req = Some p
       \<and> (\<forall>f. createOferta ((exampleEnv noon (Inl OtherValue))\<lparr>fetch := f\<rparr>) (exampleCreate (js ''LINK''))
                  (js ''tok'') = writeResponse (js ''crear oferta'') (f req))
       \<and> o_formaPostulacion p = js ''LINK''
       \<and> o_emailContacto p = None
       \<and> o_linkPostulacion p = Some (js ''https://acme.com/jobs''))
   \<and> (\<exists>req p. ofertaPart req = Some p
       \<and> (\<forall>f. updateOferta ((exampleEnv noon (Inl OtherValue))\<lparr>fetch := f\<rparr>) (exampleUpdate (js ''MAIL''))
                  (js ''tok'') = writeResponse (js ''actualizar oferta con ID 42'') (f req))
       \<and> o_formaPostulacion p = js ''MAIL''
       \<and> o_emailContacto p = Some (js ''rrhh@acme.com'')
       \<and> o_linkPostulacion p = None)
   \<and> updateOferta (exampleEnv noon (Inr (jsonResponse 200 (JObj []))))
        ((exampleUpdate (js ''MAIL''))\<lparr>u_fechaCierre := Some None\<rparr>) (js ''tok'')
       = Inl (Runtime (js ''Invalid time value''))"
proof -
  let ?e = "exampleEnv noon (Inl OtherValue)"
  let ?c = "exampleCreate (js ''LINK'')"
  let ?u = "exampleUpdate (js ''MAIL'')"
  note claim = oferta_payload_channel_exclusive [of ?e ?c "js ''tok''" ?u]
  have c_fields: "c_formaPostulacion ?c = js ''LINK''"
      "c_linkPostulacion ?c = Some (js ''https://acme.com/jobs'')"
    by (simp_all add: exampleCreate_def)
  have u_fields: "u_formaPostulacion ?u = js ''MAIL''" "u_fechaCierre ?u \<noteq> Some None"
      "u_emailContacto ?u = Some (js ''rrhh@acme.com'')"
      "js ''actualizar oferta con ID '' @ u_id ?u = js ''actualizar oferta con ID 42''"
    by (simp_all add: exampleUpdate_def js_def)
  from claim obtain req p where
      "ofertaPart req = Some p"
      "\<forall>f. createOferta (?e\<lparr>fetch := f\<rparr>) ?c (js ''tok'') = writeResponse (js ''crear oferta'') (f req)"
      "o_formaPostulacion p = c_formaPostulacion ?c"
      "c_formaPostulacion ?c = js ''LINK'' \<longrightarrow>
         o_emailContacto p = None \<and> o_linkPostulacion p = c_linkPostulacion ?c"
    by blast
  then have a: "\<exists>req p. ofertaPart req = Some p
       \<and> (\<forall>f. createOferta (?e\<lparr>fetch := f\<rparr>) ?c (js ''tok'') = writeResponse (js ''crear oferta'') (f req))
       \<and> o_formaPostulacion p = js ''LINK''
       \<and> o_emailContacto p = None
       \<and> o_linkPostulacion p = Some (js ''https://acme.com/jobs'')"
    unfolding c_fields by blast
  from claim u_fields(2) obtain req' p' where
      "ofertaPart req' = Some p'"
      "\<forall>f. updateOferta (?e\<lparr>fetch := f\<rparr>) ?u (js ''tok'')
         = writeResponse (js ''actualizar oferta con ID '' @ u_id ?u) (f req')"
      "o_formaPostulacion p' = u_formaPostulacion ?u"
      "u_formaPostulacion ?u = js ''MAIL'' \<longrightarrow>
         o_linkPostulacion p' = None \<and> o_emailContacto p' = u_emailContacto ?u"
    by blast
  then have b: "\<exists>req p. ofertaPart req = Some p
       \<and> (\<forall>f. updateOferta (?e\<lparr>fetch := f\<rparr>) ?u (js ''tok'')
              = writeResponse (js ''actualizar oferta con ID 42'') (f req))
       \<and> o_formaPostulacion p = js ''MAIL''
       \<and> o_emailContacto p = Some (js ''rrhh@acme.com'')
       \<and> o_linkPostulacion p = None"
    unfolding u_fields by blast
  have same: "?e\<lparr>fetch := \<lambda>req. Inr (jsonResponse 200 (JObj []))\<rparr>
      = exampleEnv noon (Inr (jsonResponse 200 (JObj [])))"
    by (simp add: exampleEnv_def)
  have "u_fechaCierre (?u\<lparr>u_fechaCierre := Some None\<rparr>) = Some None"
    by simp
  with oferta_payload_channel_exclusive [of ?e ?c "js ''tok''" "?u\<lparr>u_fechaCierre := Some None\<rparr>"]
  have "updateOferta (?e\<lparr>fetch := \<lambda>req. Inr (jsonResponse 200 (JObj []))\<rparr>)
        (?u\<lparr>u_fechaCierre := Some None\<rparr>) (js ''tok'')
       = Inl (Runtime (js ''Invalid time value''))"
    by blast
  then have c: "updateOferta (exampleEnv noon (Inr (jsonResponse 200 (JObj []))))
        (?u\<lparr>u_fechaCierre := Some None\<rparr>) (js ''tok'')
       = Inl (Runtime (js ''Invalid time value''))"
    by (simp only: same)
  from a b c show ?thesis by blast
qed

text \<open>
  Claim C5. On a successful response whose decoded body is not an array, \<open>fetchOfertas\<close>
  throws the not-a-valid-array error and returns nothing; when the body is an array, it
  returns that array, its elements in the order received.
\<close>

theorem fetchOfertas_array_contract:
  assumes "fetch e (ofertasRequest e) = Inr r" and "ok r" and "json_of r = Inr data"
  shows "(\<not> isArray data \<longrightarrow> fetchOfertas e = Inl NotArray)
       \<and> (\<forall>xs. data = JArr xs \<longrightarrow> fetchOfertas e = Inr (JArr xs))"
  using assms by (simp add: fetchOfertas_def)

theorem fetchOfertas_array_contract_witness:
  "fetchOfertas (exampleEnv noon (Inr (jsonResponse 200 (JObj [(js ''id'', JNum 1)])))) = Inl NotArray
   \<and> fetchOfertas (exampleEnv noon (Inr (jsonResponse 200 (JArr [JNum 2, JNum 1]))))
       = Inr (JArr [JNum 2, JNum 1])"
  using fetchOfertas_array_contract
      [of "exampleEnv noon (Inr (jsonResponse 200 (JObj [(js ''id'', JNum 1)])))"
          "jsonResponse 200 (JObj [(js ''id'', JNum 1)])" "JObj [(js ''id'', JNum 1)]"]
    fetchOfertas_array_contract
      [of "exampleEnv noon (Inr (jsonResponse 200 (JArr [JNum 2, JNum 1])))"
          "jsonResponse 200 (JArr [JNum 2, JNum 1])" "JArr [JNum 2, JNum 1]"]
  by (simp add: exampleEnv_def jsonResponse_def ok_def)

text \<open>
  Claim C4. \<open>deleteOferta\<close> succeeds when the status is in 200 to 299 or is 404, and for
  any other status throws the error that carries the status and the text of the body;
  so a first call answered with success and a second one answered with 404 both succeed.
\<close>

theorem deleteOferta_status_contract:
  assumes "fetch e (deleteRequest e ident token) = Inr r"
  shows "(ok r \<or> status r = 404 \<longrightarrow> deleteOferta e ident token = Inr ())
       \<and> (\<not> ok r \<and> status r \<noteq> 404 \<longrightarrow>
            (\<forall>errorText. text_of r = Inr errorText \<longrightarrow>
               deleteOferta e ident token = Inl (RequestFailed (status r) errorText)))
       \<and> (\<forall>e' r'. fetch e' (deleteRequest e' ident token) = Inr r' \<and> ok r \<and> status r' = 404 \<longrightarrow>
            deleteOferta e ident token = Inr () \<and> deleteOferta e' ident token = Inr ())"
  using assms by (simp add: deleteOferta_def)

theorem deleteOferta_status_contract_witness:
  "deleteOferta (exampleEnv noon (Inr (textResponse 204 []))) (js ''42'') (js ''tok'') = Inr ()
   \<and> deleteOferta (exampleEnv noon (Inr (textResponse 404 (js ''Not Found'')))) (js ''42'') (js ''tok'') = Inr ()
   \<and> deleteOferta (exampleEnv noon (Inr (textResponse 403 (js ''Forbidden'')))) (js ''42'') (js ''tok'')
       = Inl (RequestFailed 403 (js ''Forbidden''))"
  using deleteOferta_status_contract
      [of "exampleEnv noon (Inr (textResponse 204 []))" "js ''42''" "js ''tok''" "textResponse 204 []"]
    deleteOferta_status_contract
      [of "exampleEnv noon (Inr (textResponse 404 (js ''Not Found'')))" "js ''42''" "js ''tok''"
          "textResponse 404 (js ''Not Found'')"]
    deleteOferta_status_contract
      [of "exampleEnv noon (Inr (textResponse 403 (js ''Forbidden'')))" "js ''42''" "js ''tok''"
          "textResponse 403 (js ''Forbidden'')"]
  by (simp add: exampleEnv_def textResponse_def ok_def)

lemma objectResponse_ok:
  assumes "ok r" and "json_of r = Inr data"
  shows "objectResponse what (Inr r)
           = (if typeof data \<noteq> TObject \<or> data = JNull then Inl NotObject else Inr data)"
  using assms by (simp add: objectResponse_def)

lemma objectResponse_not_ok:
  assumes "\<not> ok r" and "text_of r = Inr errorText"
  shows "objectResponse what (Inr r) = Inl (RequestFailed (status r) errorText)"
  using assms by (simp add: objectResponse_def)

lemma objectResponse_contract:
  "(ok r \<longrightarrow> (\<forall>data. json_of r = Inr data \<longrightarrow>
       (data = JNull \<or> (\<exists>b. data = JBool b) \<or> (\<exists>n. data = JNum n) \<or> (\<exists>s. data = JStr s)
          \<longrightarrow> objectResponse what (Inr r) = Inl NotObject)
     \<and> ((\<exists>kvs. data = JObj kvs) \<or> (\<exists>xs. data = JArr xs)
          \<longrightarrow> objectResponse what (Inr r) = Inr data)))
   \<and> (\<not> ok r \<longrightarrow> (\<forall>errorText. text_of r = Inr errorText \<longrightarrow>
         objectResponse what (Inr r) = Inl (RequestFailed (status r) errorText)))"
  by (auto simp: objectResponse_ok objectResponse_not_ok)

text \<open>
  Claim C6, as amended. On a successful response, \<open>fetchOfertaById\<close> and
  \<open>fetchOfertaBySlug\<close> throw the not-a-valid-object error when the decoded body is \<open>null\<close>, a
  boolean, a number or a string, and return the body when it is a JSON object or a JSON
  array (\<open>typeof\<close> of an array is "object"); on any other response they throw the error
  that carries the status and the text of the body.
\<close>

theorem fetchOferta_object_contract:
  "(fetch e (ofertaByIdRequest e ident) = Inr r \<and> ok r \<and> json_of r = Inr data \<longrightarrow>
      (data = JNull \<or> (\<exists>b. data = JBool b) \<or> (\<exists>n. data = JNum n) \<or> (\<exists>s. data = JStr s)
         \<longrightarrow> fetchOfertaById e ident = Inl NotObject)
    \<and> ((\<exists>kvs. data = JObj kvs) \<or> (\<exists>xs. data = JArr xs)
         \<longrightarrow> fetchOfertaById e ident = Inr data))
   \<and> (fetch e (ofertaByIdRequest e ident) = Inr r \<and> \<not> ok r \<and> text_of r = Inr errorText \<longrightarrow>
        fetchOfertaById e ident = Inl (RequestFailed (status r) errorText))
   \<and> (fetch e (ofertaBySlugRequest e slug) = Inr r \<and> ok r \<and> json_of r = Inr data \<longrightarrow>
      (data = JNull \<or> (\<exists>b. data = JBool b) \<or> (\<exists>n. data = JNum n) \<or> (\<exists>s. data = JStr s)
         \<longrightarrow> fetchOfertaBySlug e slug = Inl NotObject)
    \<and> ((\<exists>kvs. data = JObj kvs) \<or> (\<exists>xs. data = JArr xs)
         \<longrightarrow> fetchOfertaBySlug e slug = Inr data))
   \<and> (fetch e (ofertaBySlugRequest e slug) = Inr r \<and> \<not> ok r \<and> text_of r = Inr errorText \<longrightarrow>
        fetchOfertaBySlug e slug = Inl (RequestFailed (status r) errorText))"
  using objectResponse_contract [of r]
  by (simp add: fetchOfertaById_def fetchOfertaBySlug_def)

theorem fetchOferta_object_contract_witness:
  "fetchOfertaById (exampleEnv noon (Inr (jsonResponse 200 (JObj [(js ''id'', JStr (js ''42''))])))) (js ''42'')
     = Inr (JObj [(js ''id'', JStr (js ''42''))])
   \<and> fetchOfertaById (exampleEnv noon (Inr (jsonResponse 200 JNull))) (js ''42'') = Inl NotObject
   \<and> fetchOfertaById (exampleEnv noon (Inr (textResponse 500 (js ''boom'')))) (js ''42'')
     = Inl (RequestFailed 500 (js ''boom''))
   \<and> fetchOfertaBySlug (exampleEnv noon (Inr (jsonResponse 200 (JStr (js ''x''))))) (js ''cocinero'')
     = Inl NotObject
   \<and> fetchOfertaBySlug (exampleEnv noon (Inr (textResponse 404 (js ''no'')))) (js ''cocinero'')
     = Inl (RequestFailed 404 (js ''no''))"
  using fetchOferta_object_contract
      [of "exampleEnv noon (Inr (jsonResponse 200 (JObj [(js ''id'', JStr (js ''42''))])))" "js ''42''"
          "jsonResponse 200 (JObj [(js ''id'', JStr (js ''42''))])" "JObj [(js ''id'', JStr (js ''42''))]"]
    fetchOferta_object_contract
      [of "exampleEnv noon (Inr (jsonResponse 200 JNull))" "js ''42''" "jsonResponse 200 JNull" JNull]
    fetchOferta_object_contract
      [of "exampleEnv noon (Inr (textResponse 500 (js ''boom'')))" "js ''42''"
          "textResponse 500 (js ''boom'')" _ "js ''boom''"]
    fetchOferta_object_contract
      [of "exampleEnv noon (Inr (jsonResponse 200 (JStr (js ''x''))))" _
          "jsonResponse 200 (JStr (js ''x''))" "JStr (js ''x'')" _ "js ''cocinero''"]
    fetchOferta_object_contract
      [of "exampleEnv noon (Inr (textResponse 404 (js ''no'')))" _
          "textResponse 404 (js ''no'')" _ "js ''no''" "js ''cocinero''"]
  by (simp add: exampleEnv_def jsonResponse_def textResponse_def ok_def)

text \<open>
  The claim C6 as first stated also has arrays rejected. A successful response with the
  body \<open>[]\<close> is returned as the posting by both functions.
\<close>

theorem fetchOferta_array_counterexample:
  "ok (jsonResponse 200 (JArr []))
   \<and> fetchOfertaById (exampleEnv noon (Inr (jsonResponse 200 (JArr [])))) (js ''42'') = Inr (JArr [])
   \<and> fetchOfertaBySlug (exampleEnv noon (Inr (jsonResponse 200 (JArr [])))) (js ''cocinero'') = Inr (JArr [])"
  by (simp add: fetchOfertaById_def fetchOfertaBySlug_def objectResponse_def exampleEnv_def
      jsonResponse_def ok_def)

lemma editUpdateData_valid_date:
  assumes "\<forall>s. fechaCierre d = Val s \<and> s \<noteq> [] \<longrightarrow> dateParse e s \<noteq> None"
  shows "u_fechaCierre (editUpdateData e ident userId existingLogoUrl posting d) \<noteq> Some None"
  using assms by (auto simp: editUpdateData_def split: optional.splits)

lemma editUpdateData_id:
  "u_id (editUpdateData e ident userId existingLogoUrl posting d) = ident"
  by (simp add: editUpdateData_def)

text \<open>
  Claim C10. For every backend \<open>f\<close>, \<open>updateOferta\<close> hands \<open>fetch\<close> a request whose
  \<open>oferta\<close> part has \<open>fechaPublicacion\<close> set to the clock at the time of the call, printed
  by \<open>toISOString\<close> (unless it throws on an invalid closing \<open>Date\<close>); so does every edit
  that the form submits, and the submission is the same whatever publication date the
  loaded posting has.
\<close>

theorem update_stamps_fechaPublicacion:
  "(u_fechaCierre u \<noteq> Some None \<longrightarrow>
      (\<exists>req p. ofertaPart req = Some p
         \<and> o_fechaPublicacion p = toISOString e (now e)
         \<and> (\<forall>f. updateOferta (e\<lparr>fetch := f\<rparr>) u token
                  = writeResponse (js ''actualizar oferta con ID '' @ u_id u) (f req))))
   \<and> ((\<forall>s. fechaCierre d = Val s \<and> s \<noteq> [] \<longrightarrow> dateParse e s \<noteq> None) \<longrightarrow>
      (\<exists>req p. ofertaPart req = Some p
         \<and> o_fechaPublicacion p = toISOString e (now e)
         \<and> (\<forall>f. editSubmit (e\<lparr>fetch := f\<rparr>) ident userId backendToken existingLogoUrl posting d
                  = writeResponse (js ''actualizar oferta con ID '' @ ident) (f req))))
   \<and> editSubmit e ident userId backendToken existingLogoUrl (posting\<lparr>of_fechaPublicacion := original\<rparr>) d
       = editSubmit e ident userId backendToken existingLogoUrl posting d"
proof -
  have general: "\<exists>req p. ofertaPart req = Some p
         \<and> o_fechaPublicacion p = toISOString e (now e)
         \<and> (\<forall>f. updateOferta (e\<lparr>fetch := f\<rparr>) u' token'
                  = writeResponse (js ''actualizar oferta con ID '' @ u_id u') (f req))"
    if valid: "u_fechaCierre u' \<noteq> Some None" for u' token'
  proof -
    from valid obtain req p where req: "updateRequest e u' token' = Inr req"
        and p: "updateOfertaData e u' = Inr p"
      using updateRequest_exists by blast
    have "ofertaPart req = Some p"
      using req p by (rule ofertaPart_updateRequest)
    moreover have "o_fechaPublicacion p = toISOString e (now e)"
      by (rule updateOfertaData_fields(4) [OF p])
    moreover have "\<forall>f. updateOferta (e\<lparr>fetch := f\<rparr>) u' token'
        = writeResponse (js ''actualizar oferta con ID '' @ u_id u') (f req)"
      using updateOferta_sends [OF req] by blast
    ultimately show ?thesis by blast
  qed
  have edit: "\<exists>req p. ofertaPart req = Some p
         \<and> o_fechaPublicacion p = toISOString e (now e)
         \<and> (\<forall>f. editSubmit (e\<lparr>fetch := f\<rparr>) ident userId backendToken existingLogoUrl posting d
                  = writeResponse (js ''actualizar oferta con ID '' @ ident) (f req))"
    if parses: "\<forall>s. fechaCierre d = Val s \<and> s \<noteq> [] \<longrightarrow> dateParse e s \<noteq> None"
  proof -
    let ?u = "editUpdateData e ident userId existingLogoUrl posting d"
    have "u_fechaCierre ?u \<noteq> Some None"
      using parses by (rule editUpdateData_valid_date)
    from general [OF this, of "orEmpty backendToken"] show ?thesis
      by (simp add: editSubmit_def editUpdateData_fetch editUpdateData_id)
  qed
  have same: "editSubmit e ident userId backendToken existingLogoUrl
      (posting\<lparr>of_fechaPublicacion := original\<rparr>) d
       = editSubmit e ident userId backendToken existingLogoUrl posting d"
    by (simp add: editSubmit_def editUpdateData_def)
  from general [of u token] edit same show ?thesis by blast
qed

theorem update_stamps_fechaPublicacion_witness:
  "of_fechaPublicacion examplePosting = js ''2025-01-15T12:00:00.000Z''
   \<and> (\<exists>req p. ofertaPart req = Some p
        \<and> o_fechaPublicacion p = js ''2026-11-03T15:00:00.000Z''
        \<and> (\<forall>f. editSubmit ((exampleEnv noon (Inl OtherValue))\<lparr>fetch := f\<rparr>) (js ''42'') (Some (js ''7''))
                   (Some (js ''tok'')) None examplePosting (exampleForm (Val (js ''2026-12-01'')))
                 = writeResponse (js ''actualizar oferta con ID 42'') (f req)))"
proof -
  let ?e = "exampleEnv noon (Inl OtherValue)"
  let ?d = "exampleForm (Val (js ''2026-12-01''))"
  have stamp: "toISOString ?e (now ?e) = js ''2026-11-03T15:00:00.000Z''"
    unfolding exampleEnv_def noon_def by code_simp
  have date: "parseDateOnly (js ''2026-12-01'') \<noteq> None"
    by code_simp
  have parses: "\<forall>s. fechaCierre ?d = Val s \<and> s \<noteq> [] \<longrightarrow> dateParse ?e s \<noteq> None"
    using date by (simp add: exampleForm_def exampleEnv_def)
  have ident: "js ''actualizar oferta con ID '' @ js ''42'' = js ''actualizar oferta con ID 42''"
    by (simp add: js_def)
  from update_stamps_fechaPublicacion
      [of "exampleUpdate (js ''MAIL'')" ?e "js ''tok''" ?d "js ''42''" "Some (js ''7'')" "Some (js ''tok'')"
          None examplePosting] parses
  obtain req p where "ofertaPart req = Some p" "o_fechaPublicacion p = toISOString ?e (now ?e)"
      "\<forall>f. editSubmit (?e\<lparr>fetch := f\<rparr>) (js ''42'') (Some (js ''7'')) (Some (js ''tok'')) None
             examplePosting ?d
           = writeResponse (js ''actualizar oferta con ID '' @ js ''42'') (f req)"
    by blast
  then have "\<exists>req p. ofertaPart req = Some p
        \<and> o_fechaPublicacion p = js ''2026-11-03T15:00:00.000Z''
        \<and> (\<forall>f. editSubmit (?e\<lparr>fetch := f\<rparr>) (js ''42'') (Some (js ''7''))
                   (Some (js ''tok'')) None examplePosting ?d
                 = writeResponse (js ''actualizar oferta con ID 42'') (f req))"
    unfolding stamp ident by blast
  then show ?thesis
    by (simp add: examplePosting_def)
qed

section \<open>Properties of the form schema\<close>

lemma set_trim: "set (trim s) \<subseteq> set s"
proof
  fix c assume "c \<in> set (trim s)"
  then have "c \<in> set (dropWhile isSpace (rev (dropWhile isSpace s)))"
    by (simp add: trim_def)
  then have "c \<in> set (rev (dropWhile isSpace s))"
    by (rule set_dropWhileD)
  then show "c \<in> set s"
    by (auto dest: set_dropWhileD)
qed

lemma trim_eq_Nil: "trim s = [] \<longleftrightarrow> list_all isSpace s"
proof -
  have "trim s = [] \<longleftrightarrow> (\<forall>c \<in> set (dropWhile isSpace s). isSpace c)"
    by (simp add: trim_def dropWhile_eq_Nil_conv)
  also have "\<dots> \<longleftrightarrow> dropWhile isSpace s = []"
  proof
    assume all: "\<forall>c \<in> set (dropWhile isSpace s). isSpace c"
    show "dropWhile isSpace s = []"
    proof (rule ccontr)
      assume ne: "dropWhile isSpace s \<noteq> []"
      then have "\<not> isSpace (hd (dropWhile isSpace s))"
        by (rule hd_dropWhile)
      moreover have "hd (dropWhile isSpace s) \<in> set (dropWhile isSpace s)"
        using ne by simp
      ultimately show False using all by blast
    qed
  next
    assume e: "dropWhile isSpace s = []"
    show "\<forall>c \<in> set (dropWhile isSpace s). isSpace c" unfolding e by simp
  qed
  also have "\<dots> \<longleftrightarrow> list_all isSpace s"
    by (simp add: dropWhile_eq_Nil_conv list_all_iff)
  finally show ?thesis .
qed

lemma dropWhile_id: "xs \<noteq> [] \<Longrightarrow> \<not> P (hd xs) \<Longrightarrow> dropWhile P xs = xs"
  by (cases xs) simp_all

lemma trim_idem: "trim (trim s) = trim s"
proof (cases "trim s = []")
  case True
  have "trim [] = []" by (simp add: trim_def)
  then show ?thesis unfolding True .
next
  case False
  let ?u = "dropWhile isSpace s"
  let ?v = "dropWhile isSpace (rev ?u)"
  have t: "trim s = rev ?v" by (simp add: trim_def)
  from False have v_ne: "?v \<noteq> []" by (simp add: t)
  have u_ne: "?u \<noteq> []"
  proof
    assume e: "?u = []"
    have "?v = []" unfolding e by simp
    with v_ne show False by blast
  qed
  have hd_v: "\<not> isSpace (hd ?v)" using v_ne by (rule hd_dropWhile)
  have hd_u: "\<not> isSpace (hd ?u)" using u_ne by (rule hd_dropWhile)
  obtain ws where ws: "rev ?u = ws @ ?v"
    by (metis takeWhile_dropWhile_id)
  then have "?u = rev ?v @ rev ws"
    by (metis rev_append rev_rev_ident)
  then have "hd ?u = hd (rev ?v)"
    using v_ne by (metis hd_append2 rev_is_Nil_conv)
  then have first: "\<not> isSpace (hd (rev ?v))" using hd_u by simp
  have a: "dropWhile isSpace (rev ?v) = rev ?v"
    using v_ne first by (intro dropWhile_id) simp_all
  have b: "dropWhile isSpace ?v = ?v"
    using v_ne hd_v by (intro dropWhile_id) simp_all
  have "trim (rev ?v) = rev (dropWhile isSpace (rev (dropWhile isSpace (rev ?v))))"
    by (simp only: trim_def)
  also have "\<dots> = rev (dropWhile isSpace (rev (rev ?v)))"
    by (simp only: a)
  also have "\<dots> = rev ?v"
    by (simp only: rev_rev_ident b)
  finally show ?thesis
    by (simp only: t)
qed

lemma check_Nil: "check holds msg = [] \<longleftrightarrow> holds"
  by (simp add: check_def)

lemma check_mem: "m \<in> set (check holds msg) \<longleftrightarrow> \<not> holds \<and> m = msg"
  by (auto simp: check_def)

lemma testOutside_iff: "testOutside cls val \<longleftrightarrow> \<not> list_all cls val"
  by (simp add: testOutside_def list_all_iff list_ex_iff)

text \<open>
  Claim C7, as amended. On both pages: a title of exactly 150 code units, all of the
  allowed class and not all of them whitespace, passes the title rules; a title of 151
  code units fails with the max-length message; a non-empty title of whitespace only
  fails with the only-spaces message.
\<close>

theorem titulo_rules:
  "(length s = 150 \<and> list_all tituloClass s \<and> \<not> list_all isSpace s \<longrightarrow>
      fst (tituloSchema pg s) = [])
   \<and> (length s = 151 \<longrightarrow> TituloMax \<in> set (fst (tituloSchema pg s)))
   \<and> (s \<noteq> [] \<and> list_all isSpace s \<longrightarrow> TituloSoloEspacios \<in> set (fst (tituloSchema pg s)))"
proof (intro conjI impI)
  assume h: "length s = 150 \<and> list_all tituloClass s \<and> \<not> list_all isSpace s"
  then have ne: "trim s \<noteq> []" by (simp add: trim_eq_Nil)
  have "list_all tituloClass (trim s)"
    using h set_trim [of s] by (auto simp: list_all_iff)
  with h ne show "fst (tituloSchema pg s) = []"
    by (simp add: tituloSchema_def Let_def check_Nil trim_idem testOutside_iff)
next
  assume "length s = 151"
  then show "TituloMax \<in> set (fst (tituloSchema pg s))"
    by (simp add: tituloSchema_def Let_def check_mem)
next
  assume "s \<noteq> [] \<and> list_all isSpace s"
  then have "trim s = []" by (simp add: trim_eq_Nil)
  then show "TituloSoloEspacios \<in> set (fst (tituloSchema pg s))"
    by (simp add: tituloSchema_def Let_def check_mem)
qed

theorem titulo_rules_witness:
  "fst (tituloSchema NuevoAviso (replicate 150 0x61)) = []
   \<and> TituloMax \<in> set (fst (tituloSchema EditarAviso (replicate 151 0x61)))
   \<and> TituloSoloEspacios \<in> set (fst (tituloSchema NuevoAviso [0x20, 0x09]))"
  using titulo_rules [of "replicate 150 0x61" NuevoAviso]
    titulo_rules [of "replicate 151 0x61" EditarAviso]
    titulo_rules [of "[0x20, 0x09]" NuevoAviso]
  by (simp add: list_all_iff tituloClass_def alnum_def isSpace_def)

text \<open>
  The claim C7 as first stated lets every title of 150 allowed characters pass.
  Whitespace is in the allowed class, and the title of 150 spaces fails the only-spaces
  rule on both pages.
\<close>

theorem titulo_150_spaces_counterexample:
  "length (replicate 150 (0x20 :: jschar)) = 150
   \<and> list_all tituloClass (replicate 150 0x20)
   \<and> fst (tituloSchema NuevoAviso (replicate 150 0x20)) = [TituloSoloEspacios]
   \<and> fst (tituloSchema EditarAviso (replicate 150 0x20)) = [TituloSoloEspacios]"
proof -
  have sp: "isSpace 0x20" by (simp add: isSpace_def)
  then have all: "list_all isSpace (replicate 150 0x20)" by (simp add: list_all_iff)
  then have t: "trim (replicate 150 0x20) = []" by (simp add: trim_eq_Nil)
  have cls: "list_all tituloClass (replicate 150 0x20)"
    using sp by (simp add: list_all_iff tituloClass_def)
  show ?thesis
    using cls by (simp add: tituloSchema_def Let_def t check_def testOutside_def)
qed

text \<open>
  Claim C9. A logo of exactly 5242880 bytes passes the size rule (and both rules when it
  is a PNG), one of 5242881 bytes fails it, a logo whose type is none of
  \<open>image/png\<close>, \<open>image/jpeg\<close>, \<open>image/jpg\<close> fails the type rule, and an absent logo passes
  both.
\<close>

theorem logo_rules:
  "(file_size f = 5242880 \<longrightarrow> LogoMax \<notin> set (fst (logoSchema (Some f))))
   \<and> (file_size f = 5242880 \<and> file_type f = js ''image/png'' \<longrightarrow> fst (logoSchema (Some f)) = [])
   \<and> (file_size f = 5242881 \<longrightarrow> LogoMax \<in> set (fst (logoSchema (Some f))))
   \<and> (file_type f \<notin> {js ''image/png'', js ''image/jpeg'', js ''image/jpg''} \<longrightarrow>
        LogoTipo \<in> set (fst (logoSchema (Some f))))
   \<and> fst (logoSchema None) = []"
  by (simp add: logoSchema_def check_def)

theorem logo_rules_witness:
  "fst (logoSchema (Some \<lparr>file_name = js ''logo.png'', file_size = 5242880, file_type = js ''image/png''\<rparr>)) = []
   \<and> LogoMax \<in> set (fst (logoSchema
         (Some \<lparr>file_name = js ''logo.png'', file_size = 5242881, file_type = js ''image/png''\<rparr>)))
   \<and> LogoTipo \<in> set (fst (logoSchema
         (Some \<lparr>file_name = js ''logo.gif'', file_size = 1024, file_type = js ''image/gif''\<rparr>)))"
  using logo_rules [of "\<lparr>file_name = js ''logo.png'', file_size = 5242880, file_type = js ''image/png''\<rparr>"]
    logo_rules [of "\<lparr>file_name = js ''logo.png'', file_size = 5242881, file_type = js ''image/png''\<rparr>"]
    logo_rules [of "\<lparr>file_name = js ''logo.gif'', file_size = 1024, file_type = js ''image/gif''\<rparr>"]
  by (simp add: js_def)

lemma at_mem: "(path, m) \<in> set (at path' msgs) \<longleftrightarrow> path = path' \<and> m \<in> set msgs"
  by (auto simp: at_def)

lemma formSchema_link_issue:
  "(''linkPostulacion'', LinkRequerido) \<in> set (fst (formSchema pg e v))
     \<longleftrightarrow> \<not> linkRefine (snd (objectSchema pg e v))"
  by (auto simp: formSchema_def objectSchema_def Let_def split_def at_mem check_mem
      tituloSchema_def descripcionSchema_def empresaConsultoraSchema_def categoriaSchema_def
      emailContactoSchema_def linkPostulacionSchema_def logoSchema_def
      split: optional.splits)

lemma handleSubmit_None: "handleSubmit pg e v = None \<longleftrightarrow> fst (formSchema pg e v) \<noteq> []"
  by (cases "formSchema pg e v"; cases "fst (formSchema pg e v)") (auto simp: handleSubmit_def)

lemma objectSchema_link:
  "formaPostulacion (snd (objectSchema pg e v)) = formaPostulacion v"
  "linkPostulacion (snd (objectSchema pg e v)) = snd (linkPostulacionSchema e (linkPostulacion v))"
  by (simp_all add: objectSchema_def Let_def split_def)

text \<open>
  Claim C8. When the channel is LINK and \<open>linkPostulacion\<close> is \<open>undefined\<close>, \<open>null\<close>, empty
  or blank after trimming, validation reports the link-required message on
  \<open>linkPostulacion\<close> and \<open>onSubmit\<close> is not called, for every value \<open>em\<close> of
  \<open>emailContacto\<close> and every value of the other fields.
\<close>

theorem link_required_when_LINK:
  assumes "formaPostulacion v = LINK"
    and "linkPostulacion v = Undefined \<or> linkPostulacion v = Null
         \<or> (\<exists>s. linkPostulacion v = Val s \<and> trim s = [])"
  shows "(''linkPostulacion'', LinkRequerido) \<in> set (fst (formSchema pg e (v\<lparr>emailContacto := em\<rparr>)))
       \<and> handleSubmit pg e (v\<lparr>emailContacto := em\<rparr>) = None"
proof -
  let ?v = "v\<lparr>emailContacto := em\<rparr>"
  have "blank (snd (linkPostulacionSchema e (linkPostulacion ?v)))"
    using assms(2) by (auto simp: linkPostulacionSchema_def blank_def Let_def)
  then have "\<not> linkRefine (snd (objectSchema pg e ?v))"
    using assms(1) by (simp add: linkRefine_def objectSchema_link)
  then have issue: "(''linkPostulacion'', LinkRequerido) \<in> set (fst (formSchema pg e ?v))"
    using formSchema_link_issue by blast
  then have "fst (formSchema pg e ?v) \<noteq> []" by auto
  then have "handleSubmit pg e ?v = None" using handleSubmit_None by blast
  with issue show ?thesis by blast
qed

theorem link_required_when_LINK_witness:
  "(''linkPostulacion'', LinkRequerido) \<in> set (fst (formSchema NuevoAviso (exampleEnv noon (Inl OtherValue))
       ((exampleForm Null)\<lparr>formaPostulacion := LINK, linkPostulacion := Val (js ''  ''),
                            emailContacto := Val (js ''rrhh@acme.com'')\<rparr>)))
   \<and> handleSubmit NuevoAviso (exampleEnv noon (Inl OtherValue))
       ((exampleForm Null)\<lparr>formaPostulacion := LINK, linkPostulacion := Val (js ''  ''),
                            emailContacto := Val (js ''rrhh@acme.com'')\<rparr>) = None"
proof -
  have sp: "trim (js ''  '') = []"
    by (simp add: trim_eq_Nil js_def isSpace_def)
  show ?thesis
    using link_required_when_LINK
      [of "(exampleForm Null)\<lparr>formaPostulacion := LINK, linkPostulacion := Val (js ''  '')\<rparr>"
          NuevoAviso "exampleEnv noon (Inl OtherValue)" "Val (js ''rrhh@acme.com'')"] sp
    by (simp add: exampleForm_def)
qed





text \<open>
  Claim C2 has a closing date equal to today's date pass. At 15:00 UTC on 3 November
  2026 an otherwise valid form with the closing date \<open>2026-11-03\<close> is rejected on both
  pages with "La fecha de cierre no puede ser anterior a hoy", since the date is read as
  midnight UTC, which is earlier than the clock; the day before is rejected as well and
  the next day's date passes.
\<close>

theorem fechaCierre_today_rejected:
  "isoString noon = js ''2026-11-03T15:00:00.000Z''
   \<and> fst (formSchema NuevoAviso (exampleEnv noon (Inl OtherValue)) (exampleForm (Val (js ''2026-11-03''))))
       = [(''fechaCierre'', FechaCierreAnterior)]
   \<and> fst (formSchema EditarAviso (exampleEnv noon (Inl OtherValue)) (exampleForm (Val (js ''2026-11-03''))))
       = [(''fechaCierre'', FechaCierreAnterior)]
   \<and> fst (formSchema NuevoAviso (exampleEnv noon (Inl OtherValue)) (exampleForm (Val (js ''2026-11-02''))))
       = [(''fechaCierre'', FechaCierreAnterior)]
   \<and> fst (formSchema NuevoAviso (exampleEnv noon (Inl OtherValue)) (exampleForm (Val (js ''2026-11-04''))))
       = []"
  by code_simp

text \<open>
  The closing-date rule rejects exactly a non-empty closing date that parses to a time
  value strictly before the clock.
\<close>

lemma fechaCierreRefine_iff:
  "fechaCierreRefine e d \<longleftrightarrow>
     \<not> (\<exists>s t. fechaCierre d = Val s \<and> s \<noteq> [] \<and> dateParse e s = Some t \<and> t < now e)"
  by (auto simp: fechaCierreRefine_def split: optional.splits option.splits)

text \<open>In the example environment 30 February is read as 2 March.\<close>

lemma parseDateOnly_rolls_over:
  "parseDateOnly (js ''2026-02-30'') = parseDateOnly (js ''2026-03-02'')"
  by code_simp

end
